theory Spec2Isabelle
  imports Complex_Main "HOL-Library.Sublist"
begin

section \<open>Data model of the notebook\<close>

text \<open>
  The notebook \<^verbatim>\<open>hlca_lung_gpu_analysis-visualization.ipynb\<close> is a linear script over
  a handful of global variables. Every numerical step is a call into a library that is
  not part of the notebook; those calls are the fields of the record \<open>ext\<close> below, and
  the notebook is verified for every behaviour of them.

  Matrix entries are floating-point numbers: a real, or one of the three values that
  are not numbers of the reals. The model does no arithmetic on them: sums and
  quotients are the libraries'. A matrix keeps its column count beside its rows, as a
  sparse matrix keeps its shape, so that a matrix without rows still has columns.
\<close>

datatype float = Finite real | NaN | PosInf | NegInf

datatype matrix = Matrix (n_cols: nat) (rows: "float list list")

text \<open>A \<^verbatim>\<open>cudf.Series\<close> of strings: index label and entry, in order.\<close>

type_synonym series = "(nat \<times> string) list"

datatype column = Num "float list" | Cat "string list"

record anndata =
  X :: matrix
  obs_names :: "string list"
  var_names :: "string list"
  obs :: "string \<rightharpoonup> column"
  var :: "string \<rightharpoonup> bool list"
  obsm :: "string \<rightharpoonup> matrix"
  uns :: "string \<rightharpoonup> matrix"

text \<open>
  Exceptions are values. \<open>IndexError\<close> is what indexing an empty index, or a column
  that is out of range, raises; every other exception of a library is a \<open>LibraryError\<close>
  with its name.
\<close>

datatype error = IndexError | KeyError | LibraryError string

text \<open>
  The calls the notebook makes into code that is not its own, each with the
  configuration the notebook passes. The run keeps them in order, each with the
  exception it raised, if any.
\<close>

datatype call =
    PathExists string
  | PrintLine string
  | Makedirs string bool
  | WgetDownload string string
  | ScRead string
  | FilterCells nat nat
  | FilterGenes nat
  | NormalizeTotal real
  | Log1p
  | NewAnnData
  | SetVarNames
  | SetObsNames
  | SetObsColumn string
  | SetObsm string
  | HighlyVariableGenes nat string
  | SubsetVars
  | IndexFirst string
  | GetColumn nat
  | SelectColumns
  | SumRows
  | Divide
  | CpArray
  | GpuSeries
  | CsrMatrix
  | ToCsc
  | CscMatrix
  | DisplayShape nat nat
  | RegressOut
  | Scale real
  | PcaFitTransform nat "string option"
  | Neighbors nat nat string
  | Umap real real string
  | Louvain string
  | PlotUmap "string list"
  | Dashboard "string list" string
  | SubsetObs
  | ExportTable
  | GetAttr string
  | PrintShape nat nat
  | DisplayHead
  | SubsetNames
  | DisplayObject

type_synonym event = "call \<times> error option"

text \<open>The libraries, as parameters of the model.\<close>

record ext =
  wget_download :: "string \<Rightarrow> error + string"
  h5ad_parse :: "string \<Rightarrow> error + anndata"
  filter_cells :: "matrix \<Rightarrow> nat \<Rightarrow> nat \<Rightarrow> series \<Rightarrow> error + (matrix \<times> series)"
  filter_genes :: "matrix \<Rightarrow> series \<Rightarrow> nat \<Rightarrow> error + (matrix \<times> series)"
  normalize_total :: "matrix \<Rightarrow> real \<Rightarrow> error + matrix"
  log1p :: "matrix \<Rightarrow> error + matrix"
  new_anndata :: "matrix \<Rightarrow> error + anndata"
  set_var_names :: "anndata \<Rightarrow> string list \<Rightarrow> error + anndata"
  set_obs_names :: "anndata \<Rightarrow> string list \<Rightarrow> error + anndata"
  set_obs_column :: "anndata \<Rightarrow> string \<Rightarrow> float list \<Rightarrow> error + anndata"
  set_obsm :: "anndata \<Rightarrow> string \<Rightarrow> matrix \<Rightarrow> error + anndata"
  highly_variable_genes :: "anndata \<Rightarrow> nat \<Rightarrow> string \<Rightarrow> error + anndata"
  subset_vars :: "anndata \<Rightarrow> bool list \<Rightarrow> error + anndata"
  regress_out :: "matrix \<Rightarrow> float list \<Rightarrow> float list \<Rightarrow> error + matrix"
  scale :: "matrix \<Rightarrow> real \<Rightarrow> error + matrix"
  pca_fit_transform :: "nat \<Rightarrow> string option \<Rightarrow> matrix \<Rightarrow> error + matrix"
  neighbors :: "anndata \<Rightarrow> nat \<Rightarrow> nat \<Rightarrow> string \<Rightarrow> error + anndata"
  umap :: "anndata \<Rightarrow> real \<Rightarrow> real \<Rightarrow> string \<Rightarrow> error + anndata"
  louvain :: "anndata \<Rightarrow> string \<Rightarrow> error + anndata"
  pl_umap :: "anndata \<Rightarrow> string list \<Rightarrow> error + unit"
  subset_obs :: "anndata \<Rightarrow> nat list \<Rightarrow> error + anndata"
  gpu_series :: "string list \<Rightarrow> error + series"
  csr_matrix :: "matrix \<Rightarrow> error + matrix"
  tocsc :: "matrix \<Rightarrow> error + matrix"
  csc_matrix :: "matrix \<Rightarrow> error + matrix"
  sum_rows :: "matrix \<Rightarrow> error + float list"
  select_columns :: "matrix \<Rightarrow> bool list \<Rightarrow> error + matrix"
  divide :: "float list \<Rightarrow> float list \<Rightarrow> error + float list"
  cp_array :: "float list \<Rightarrow> error + float list"
  subset_names :: "anndata \<Rightarrow> column \<Rightarrow> error + anndata"

section \<open>The notebook's state and its runs\<close>

text \<open>
  The state is the file system the notebook can see, the calls made so far, and the
  notebook's global variables. A variable that is not yet assigned holds an empty
  value; the script assigns every variable before it reads it.
\<close>

text \<open>A data frame: its number of rows and its named columns, in order.\<close>

record dataframe =
  n_rows :: nat
  cols :: "(string \<times> column) list"

record state =
  files :: "string \<rightharpoonup> string"
  dirs :: "string set"
  trace :: "event list"
  adata :: anndata
  genes :: series
  barcodes :: series
  sparse_gpu_array :: matrix
  raw_marker_expressions :: "string \<rightharpoonup> float list"
  n_counts :: "float list"
  percent_ribo :: "float list"
  heap :: "nat \<Rightarrow> anndata"
  next_ref :: nat
  selected_cells :: "dataframe option"
  adata_selected_cells :: anndata

text \<open>
  A statement either returns a value or raises, and leaves a state behind in both
  cases. Sequencing stops at the first exception: the notebook has no handler.
\<close>

type_synonym 'a stmt = "state \<Rightarrow> (error + 'a) \<times> state"

definition ret :: "'a \<Rightarrow> 'a stmt" where
  "ret x = (\<lambda>s. (Inr x, s))"

definition bind :: "'a stmt \<Rightarrow> ('a \<Rightarrow> 'b stmt) \<Rightarrow> 'b stmt" where
  "bind m f = (\<lambda>s. case m s of (Inl e, s') \<Rightarrow> (Inl e, s') | (Inr x, s') \<Rightarrow> f x s')"

definition outcome :: "error + 'a \<Rightarrow> error option" where
  "outcome r = (case r of Inl e \<Rightarrow> Some e | Inr _ \<Rightarrow> None)"

definition logged :: "call \<Rightarrow> error option \<Rightarrow> state \<Rightarrow> state" where
  "logged c r s = s\<lparr>trace := trace s @ [(c, r)]\<rparr>"

text \<open>A call into a library: it is recorded with its outcome, and its result is passed on.\<close>

definition lib :: "call \<Rightarrow> error + 'a \<Rightarrow> 'a stmt" where
  "lib c r = (\<lambda>s. (r, logged c (outcome r) s))"

definition assign :: "(state \<Rightarrow> state) \<Rightarrow> unit stmt" where
  "assign f = (\<lambda>s. (Inr (), f s))"

section \<open>Parameters (the notebook's parameter cell)\<close>

definition input_file :: string where
  "input_file = ''../data/krasnow_hlca_10x.sparse.h5ad''"

definition input_url :: string where
  "input_url = ''https://rapids-single-cell-examples.s3.us-east-2.amazonaws.com/krasnow_hlca_10x.sparse.h5ad''"

definition RIBO_GENE_PREFIX :: string where "RIBO_GENE_PREFIX = ''RPS''"
definition markers :: "string list" where "markers = [''ACE2'', ''TMPRSS2'', ''EPCAM'']"
definition min_genes_per_cell :: nat where "min_genes_per_cell = 200"
definition max_genes_per_cell :: nat where "max_genes_per_cell = 6000"
definition n_top_genes :: nat where "n_top_genes = 5000"
definition n_components :: nat where "n_components = 50"
definition n_neighbors :: nat where "n_neighbors = 15"
definition knn_n_pcs :: nat where "knn_n_pcs = 50"
definition umap_min_dist :: real where "umap_min_dist = 3 / 10"
definition umap_spread :: real where "umap_spread = 1"

section \<open>Input file\<close>

text \<open>
  \<^verbatim>\<open>os.path.exists\<close>, \<^verbatim>\<open>print\<close> and \<^verbatim>\<open>os.makedirs\<close> act on the state's file
  system; \<^verbatim>\<open>wget.download(url, out)\<close> stores what the network returns at \<open>out\<close>.
\<close>

definition os_path_exists :: "string \<Rightarrow> bool stmt" where
  "os_path_exists p = (\<lambda>s. lib (PathExists p) (Inr (files s p \<noteq> None \<or> p \<in> dirs s)) s)"

definition print_line :: "string \<Rightarrow> unit stmt" where
  "print_line t = lib (PrintLine t) (Inr ())"

definition os_makedirs :: "string \<Rightarrow> bool \<Rightarrow> unit stmt" where
  "os_makedirs p exist_ok = (\<lambda>s.
     if files s p \<noteq> None \<or> (p \<in> dirs s \<and> \<not> exist_ok)
     then lib (Makedirs p exist_ok) (Inl (LibraryError ''FileExistsError'')) s
     else lib (Makedirs p exist_ok) (Inr ()) (s\<lparr>dirs := insert p (dirs s)\<rparr>))"

definition wget :: "ext \<Rightarrow> string \<Rightarrow> string \<Rightarrow> unit stmt" where
  "wget E url out =
     bind (lib (WgetDownload url out) (wget_download E url))
       (\<lambda>bytes. assign (\<lambda>s. s\<lparr>files := (files s)(out \<mapsto> bytes)\<rparr>))"

definition cell_input :: "ext \<Rightarrow> unit stmt" where
  "cell_input E =
     bind (os_path_exists input_file) (\<lambda>found.
       if \<not> found then
         bind (print_line ''Downloading import file...'') (\<lambda>_.
         bind (os_makedirs ''../data'' True) (\<lambda>_.
         wget E input_url input_file))
       else ret ())"

section \<open>Load and prepare\<close>

definition sc_read :: "ext \<Rightarrow> string \<Rightarrow> anndata stmt" where
  "sc_read E p = (\<lambda>s. lib (ScRead p)
     (case files s p of
        None \<Rightarrow> Inl (LibraryError (if p \<in> dirs s then ''IsADirectoryError''
                                   else ''FileNotFoundError''))
      | Some bytes \<Rightarrow> h5ad_parse E bytes) s)"

definition cell_read :: "ext \<Rightarrow> unit stmt" where
  "cell_read E = bind (sc_read E input_file) (\<lambda>a. assign (\<lambda>s. s\<lparr>adata := a\<rparr>))"

text \<open>
  The entries of a series, in order (\<^verbatim>\<open>to_pandas()\<close> and the values of an index).
\<close>

definition series_values :: "series \<Rightarrow> string list" where
  "series_values sr = map snd sr"

text \<open>
  \<^verbatim>\<open>genes = cudf.Series(adata.var_names)\<close>, \<^verbatim>\<open>barcodes = cudf.Series(adata.obs_names)\<close>,
  \<^verbatim>\<open>sparse_gpu_array = cp.sparse.csr_matrix(adata.X)\<close>: three transfers to the device.
\<close>

definition cell_to_gpu :: "ext \<Rightarrow> unit stmt" where
  "cell_to_gpu E =
     bind (\<lambda>s. lib GpuSeries (gpu_series E (var_names (adata s))) s) (\<lambda>g.
     bind (assign (\<lambda>s. s\<lparr>genes := g\<rparr>)) (\<lambda>_.
     bind (\<lambda>s. lib GpuSeries (gpu_series E (obs_names (adata s))) s) (\<lambda>b.
     bind (assign (\<lambda>s. s\<lparr>barcodes := b\<rparr>)) (\<lambda>_.
     bind (\<lambda>s. lib CsrMatrix (csr_matrix E (X (adata s))) s) (\<lambda>m.
     assign (\<lambda>s. s\<lparr>sparse_gpu_array := m\<rparr>))))))"

section \<open>Preprocessing\<close>

definition cell_filter_cells :: "ext \<Rightarrow> unit stmt" where
  "cell_filter_cells E = (\<lambda>s.
     bind (lib (FilterCells min_genes_per_cell max_genes_per_cell)
            (filter_cells E (sparse_gpu_array s) min_genes_per_cell max_genes_per_cell (barcodes s)))
       (\<lambda>(m, b). assign (\<lambda>s. s\<lparr>sparse_gpu_array := m, barcodes := b\<rparr>)) s)"

definition cell_filter_genes :: "ext \<Rightarrow> unit stmt" where
  "cell_filter_genes E = (\<lambda>s.
     bind (lib (FilterGenes 1) (filter_genes E (sparse_gpu_array s) (genes s) 1))
       (\<lambda>(m, g). assign (\<lambda>s. s\<lparr>sparse_gpu_array := m, genes := g\<rparr>)) s)"

definition cell_normalize :: "ext \<Rightarrow> unit stmt" where
  "cell_normalize E = (\<lambda>s.
     bind (lib (NormalizeTotal 10000) (normalize_total E (sparse_gpu_array s) 10000))
       (\<lambda>m. assign (\<lambda>s. s\<lparr>sparse_gpu_array := m\<rparr>)) s)"

definition cell_log1p :: "ext \<Rightarrow> unit stmt" where
  "cell_log1p E = (\<lambda>s.
     bind (lib Log1p (log1p E (sparse_gpu_array s)))
       (\<lambda>m. assign (\<lambda>s. s\<lparr>sparse_gpu_array := m\<rparr>)) s)"

definition shape :: "matrix \<Rightarrow> nat \<times> nat" where
  "shape m = (length (rows m), n_cols m)"

definition display_shape :: "matrix \<Rightarrow> unit stmt" where
  "display_shape m = lib (DisplayShape (fst (shape m)) (snd (shape m))) (Inr ())"

definition cell_adata_shape :: "unit stmt" where
  "cell_adata_shape = (\<lambda>s. display_shape (X (adata s)) s)"

definition cell_array_shape :: "unit stmt" where
  "cell_array_shape = (\<lambda>s. display_shape (sparse_gpu_array s) s)"

section \<open>Highly variable genes\<close>

definition cell_to_anndata :: "ext \<Rightarrow> unit stmt" where
  "cell_to_anndata E =
     bind (\<lambda>s. lib NewAnnData (new_anndata E (sparse_gpu_array s)) s) (\<lambda>a.
     bind (assign (\<lambda>s. s\<lparr>adata := a\<rparr>)) (\<lambda>_.
     bind (\<lambda>s. lib SetVarNames (set_var_names E (adata s) (series_values (genes s))) s) (\<lambda>a.
     assign (\<lambda>s. s\<lparr>adata := a\<rparr>))))"

text \<open>
  \<^verbatim>\<open>adata[:, adata.var.highly_variable]\<close>: reading a column of \<open>var\<close> that is not
  there raises; the subsetting itself is the container's.
\<close>

definition cell_hvg :: "ext \<Rightarrow> unit stmt" where
  "cell_hvg E =
     bind (\<lambda>s. lib (HighlyVariableGenes n_top_genes ''cell_ranger'')
                 (highly_variable_genes E (adata s) n_top_genes ''cell_ranger'') s) (\<lambda>a.
     bind (assign (\<lambda>s. s\<lparr>adata := a\<rparr>)) (\<lambda>_.
     bind (\<lambda>s. lib SubsetVars
                 (case var (adata s) ''highly_variable'' of
                    None \<Rightarrow> Inl (LibraryError ''AttributeError'')
                  | Some keep \<Rightarrow> subset_vars E (adata s) keep) s) (\<lambda>a.
     assign (\<lambda>s. s\<lparr>adata := a\<rparr>))))"

section \<open>Marker expression capture\<close>

text \<open>
  \<^verbatim>\<open>genes[genes == marker].index[0]\<close>: the index label of the first entry equal to the
  marker; \<open>IndexError\<close> when no entry is.
\<close>

definition index_first :: "series \<Rightarrow> string \<Rightarrow> error + nat" where
  "index_first sr marker =
     (case filter (\<lambda>(i, g). g = marker) sr of
        [] \<Rightarrow> Inl IndexError
      | (i, g) # _ \<Rightarrow> Inr i)"

text \<open>\<^verbatim>\<open>tmp_norm[:, j].todense().ravel()\<close>: column \<open>j\<close>, one entry per row.\<close>

definition get_column :: "matrix \<Rightarrow> nat \<Rightarrow> error + float list" where
  "get_column m j = (if j < n_cols m then Inr (map (\<lambda>r. r ! j) (rows m)) else Inl IndexError)"

fun capture :: "string list \<Rightarrow> matrix \<Rightarrow> unit stmt" where
  "capture [] tmp_norm = ret ()"
| "capture (marker # ms) tmp_norm =
     bind (\<lambda>s. lib (IndexFirst marker) (index_first (genes s) marker) s) (\<lambda>j.
     bind (lib (GetColumn j) (get_column tmp_norm j)) (\<lambda>col.
     bind (assign (\<lambda>s. s\<lparr>raw_marker_expressions := (raw_marker_expressions s)(marker \<mapsto> col)\<rparr>)) (\<lambda>_.
     capture ms tmp_norm)))"

text \<open>
  \<^verbatim>\<open>tmp_norm = sparse_gpu_array.tocsc()\<close>, \<^verbatim>\<open>raw_marker_expressions = {}\<close>, then the
  loop over the markers.
\<close>

definition cell_capture :: "ext \<Rightarrow> unit stmt" where
  "cell_capture E =
     bind (\<lambda>s. lib ToCsc (tocsc E (sparse_gpu_array s)) s) (\<lambda>tmp_norm.
     bind (assign (\<lambda>s. s\<lparr>raw_marker_expressions := Map.empty\<rparr>)) (\<lambda>_.
     capture markers tmp_norm))"

section \<open>Confounders, regression, scaling\<close>

definition startswith :: "string \<Rightarrow> string \<Rightarrow> bool" where
  "startswith x pre = (take (length pre) x = pre)"

text \<open>An index of names, as a series under the positions 0, 1, 2, ...\<close>

definition Series :: "string list \<Rightarrow> series" where
  "Series xs = zip [0 ..< length xs] xs"

text \<open>
  \<^verbatim>\<open>genes = adata.var_names\<close>;
  \<^verbatim>\<open>ribo_genes = adata.var_names.str.startswith(RIBO_GENE_PREFIX)\<close>;
  \<^verbatim>\<open>n_counts = adata.X.sum(axis=1)\<close>;
  \<^verbatim>\<open>percent_ribo = (adata.X[:,ribo_genes].sum(axis=1) / n_counts).ravel()\<close>;
  \<^verbatim>\<open>n_counts = cp.array(n_counts).ravel()\<close>;
  \<^verbatim>\<open>percent_ribo = cp.array(percent_ribo).ravel()\<close>.
  The sums, the column selection, the quotient and the transfers are the libraries';
  what a quotient by zero is, is theirs to say.
\<close>

definition cell_confounders :: "ext \<Rightarrow> unit stmt" where
  "cell_confounders E =
     bind (assign (\<lambda>s. s\<lparr>genes := Series (var_names (adata s))\<rparr>)) (\<lambda>_.
     bind (\<lambda>s. lib SumRows (sum_rows E (X (adata s))) s) (\<lambda>n.
     bind (assign (\<lambda>s. s\<lparr>n_counts := n\<rparr>)) (\<lambda>_.
     bind (\<lambda>s. lib SelectColumns
                 (select_columns E (X (adata s))
                    (map (\<lambda>g. startswith g RIBO_GENE_PREFIX) (var_names (adata s)))) s) (\<lambda>ribo.
     bind (lib SumRows (sum_rows E ribo)) (\<lambda>r.
     bind (\<lambda>s. lib Divide (divide E r (n_counts s)) s) (\<lambda>p.
     bind (assign (\<lambda>s. s\<lparr>percent_ribo := p\<rparr>)) (\<lambda>_.
     bind (\<lambda>s. lib CpArray (cp_array E (n_counts s)) s) (\<lambda>n'.
     bind (assign (\<lambda>s. s\<lparr>n_counts := n'\<rparr>)) (\<lambda>_.
     bind (\<lambda>s. lib CpArray (cp_array E (percent_ribo s)) s) (\<lambda>p'.
     assign (\<lambda>s. s\<lparr>percent_ribo := p'\<rparr>)))))))))))"

text \<open>
  \<^verbatim>\<open>sparse_gpu_array = cp.sparse.csc_matrix(adata.X)\<close>, then
  \<^verbatim>\<open>rapids_scanpy_funcs.regress_out(sparse_gpu_array, n_counts, percent_ribo)\<close>.
\<close>

definition cell_regress :: "ext \<Rightarrow> unit stmt" where
  "cell_regress E =
     bind (\<lambda>s. lib CscMatrix (csc_matrix E (X (adata s))) s) (\<lambda>m.
     bind (assign (\<lambda>s. s\<lparr>sparse_gpu_array := m\<rparr>)) (\<lambda>_.
     bind (\<lambda>s. lib RegressOut (regress_out E (sparse_gpu_array s) (n_counts s) (percent_ribo s)) s) (\<lambda>m.
     assign (\<lambda>s. s\<lparr>sparse_gpu_array := m\<rparr>))))"

definition cell_scale :: "ext \<Rightarrow> unit stmt" where
  "cell_scale E =
     bind (\<lambda>s. lib (Scale 10) (scale E (sparse_gpu_array s) 10) s) (\<lambda>m.
     assign (\<lambda>s. s\<lparr>sparse_gpu_array := m\<rparr>))"

section \<open>Cluster and visualize\<close>

text \<open>A library call that mutates the object held by the global \<^verbatim>\<open>adata\<close>.\<close>

definition on_adata :: "call \<Rightarrow> (anndata \<Rightarrow> error + anndata) \<Rightarrow> unit stmt" where
  "on_adata c f =
     bind (\<lambda>s. lib c (f (adata s)) s) (\<lambda>a. assign (\<lambda>s. s\<lparr>adata := a\<rparr>))"

fun attach :: "ext \<Rightarrow> string list \<Rightarrow> unit stmt" where
  "attach E [] = ret ()"
| "attach E (marker # ms) =
     bind (\<lambda>s. on_adata (SetObsColumn (marker @ ''_raw''))
                 (\<lambda>a. case raw_marker_expressions s marker of
                         None \<Rightarrow> Inl KeyError
                       | Some col \<Rightarrow> set_obs_column E a (marker @ ''_raw'') col) s) (\<lambda>_.
     attach E ms)"

definition cell_attach :: "ext \<Rightarrow> unit stmt" where
  "cell_attach E =
     bind (\<lambda>s. lib NewAnnData (new_anndata E (sparse_gpu_array s)) s) (\<lambda>a.
     bind (assign (\<lambda>s. s\<lparr>adata := a\<rparr>)) (\<lambda>_.
     bind (\<lambda>s. on_adata SetVarNames (\<lambda>a. set_var_names E a (series_values (genes s))) s) (\<lambda>_.
     bind (\<lambda>s. on_adata SetObsNames (\<lambda>a. set_obs_names E a (series_values (barcodes s))) s) (\<lambda>_.
     attach E markers))))"

definition cell_pca :: "ext \<Rightarrow> unit stmt" where
  "cell_pca E =
     bind (\<lambda>s. lib (PcaFitTransform n_components (Some ''numpy''))
                 (pca_fit_transform E n_components (Some ''numpy'') (X (adata s))) s) (\<lambda>p.
     on_adata (SetObsm ''X_pca'') (\<lambda>a. set_obsm E a ''X_pca'' p))"

definition cell_neighbors :: "ext \<Rightarrow> unit stmt" where
  "cell_neighbors E =
     on_adata (Neighbors n_neighbors knn_n_pcs ''rapids'')
       (\<lambda>a. neighbors E a n_neighbors knn_n_pcs ''rapids'')"

definition cell_umap :: "ext \<Rightarrow> unit stmt" where
  "cell_umap E =
     on_adata (Umap umap_min_dist umap_spread ''rapids'')
       (\<lambda>a. umap E a umap_min_dist umap_spread ''rapids'')"

definition cell_louvain :: "ext \<Rightarrow> unit stmt" where
  "cell_louvain E = on_adata (Louvain ''rapids'') (\<lambda>a. louvain E a ''rapids'')"

definition cell_plot :: "ext \<Rightarrow> unit stmt" where
  "cell_plot E = (\<lambda>s. lib (PlotUmap [''louvain'']) (pl_umap E (adata s) [''louvain'']) s)"

section \<open>The re-clustering callback\<close>

text \<open>
  \<^verbatim>\<open>re_cluster(adata)\<close> receives an object, mutates it and returns it. Objects handed
  to the callback live in the store \<open>heap\<close>; the argument and the result are addresses.
  A name always refers to an object, so the store is total: an address that was never
  allocated holds an object that no statement reaches.
\<close>

definition deref :: "nat \<Rightarrow> anndata stmt" where
  "deref r = (\<lambda>s. (Inr (heap s r), s))"

definition in_place :: "nat \<Rightarrow> call \<Rightarrow> (anndata \<Rightarrow> error + anndata) \<Rightarrow> unit stmt" where
  "in_place r c f =
     bind (deref r) (\<lambda>a.
     bind (lib c (f a)) (\<lambda>a'.
     assign (\<lambda>s. s\<lparr>heap := (heap s)(r := a')\<rparr>)))"

definition re_cluster :: "ext \<Rightarrow> nat \<Rightarrow> nat stmt" where
  "re_cluster E r =
     bind (deref r) (\<lambda>a.
     bind (lib (PcaFitTransform n_components None)
            (pca_fit_transform E n_components None (X a))) (\<lambda>p.
     bind (in_place r (SetObsm ''X_pca'') (\<lambda>a. set_obsm E a ''X_pca'' p)) (\<lambda>_.
     bind (in_place r (Neighbors n_neighbors knn_n_pcs ''rapids'')
            (\<lambda>a. neighbors E a n_neighbors knn_n_pcs ''rapids'')) (\<lambda>_.
     bind (in_place r (Umap umap_min_dist umap_spread ''rapids'')
            (\<lambda>a. umap E a umap_min_dist umap_spread ''rapids'')) (\<lambda>_.
     bind (in_place r (Louvain ''rapids'') (\<lambda>a. louvain E a ''rapids'')) (\<lambda>_.
     ret r))))))"

section \<open>The script\<close>

fun run_cells :: "unit stmt list \<Rightarrow> unit stmt" where
  "run_cells [] = ret ()"
| "run_cells (c # cs) = bind c (\<lambda>_. run_cells cs)"

text \<open>The cells in the notebook's order, from the input file to Louvain clustering.\<close>

definition pipeline_cells :: "ext \<Rightarrow> unit stmt list" where
  "pipeline_cells E =
     [cell_input E, cell_read E, cell_adata_shape, cell_to_gpu E,
      cell_filter_cells E, cell_filter_genes E, cell_array_shape,
      cell_normalize E, cell_log1p E,
      cell_to_anndata E, cell_hvg E,
      cell_capture E, cell_confounders E, cell_regress E, cell_scale E,
      cell_attach E, cell_pca E, cell_neighbors E, cell_umap E, cell_louvain E]"

text \<open>The cells of the four steps that the re-clustering callback repeats.\<close>

definition clustering_cells :: "ext \<Rightarrow> unit stmt list" where
  "clustering_cells E = [cell_pca E, cell_neighbors E, cell_umap E, cell_louvain E]"

text \<open>The cells up to and including the log transform.\<close>

definition normalized_cells :: "ext \<Rightarrow> unit stmt list" where
  "normalized_cells E = take 9 (pipeline_cells E)"

text \<open>The cells up to, and not including, the capture of the marker expressions.\<close>

definition cells_before_capture :: "ext \<Rightarrow> unit stmt list" where
  "cells_before_capture E = take 11 (pipeline_cells E)"

definition pipeline :: "ext \<Rightarrow> unit stmt" where
  "pipeline E = run_cells (pipeline_cells E)"

section \<open>The dashboard\<close>

definition alloc :: "anndata \<Rightarrow> nat stmt" where
  "alloc a = (\<lambda>s. (Inr (next_ref s),
                     s\<lparr>heap := (heap s)(next_ref s := a), next_ref := Suc (next_ref s)\<rparr>))"

text \<open>
  Modelled from the spec: \<^verbatim>\<open>visualize.Visualization\<close> (the module \<^verbatim>\<open>visualize.py\<close> is
  imported by the notebook and is not among its sources). The spec and the notebook's
  text say of it: the user may re-cluster a selected subset of the cells, which calls
  the callback on that subset; the button "Export to Dataframe" exports the selected
  cells with their cluster labels in the column \<^verbatim>\<open>labels\<close> and closes the dashboard;
  without an export no table is produced. A session is the list of the user's
  gestures; cells are selected by row number.
\<close>

datatype gesture = Recluster "nat list" | ExportToDataframe "nat list"

definition export_table :: "anndata \<Rightarrow> nat list \<Rightarrow> error + dataframe" where
  "export_table a sel =
     (case obs a ''louvain'' of
        Some (Cat labels) \<Rightarrow>
          if list_all (\<lambda>i. i < length labels \<and> i < length (obs_names a)) sel
          then Inr \<lparr>n_rows = length sel,
                    cols = [(''barcode'', Cat (map (\<lambda>i. obs_names a ! i) sel)),
                            (''labels'', Cat (map (\<lambda>i. labels ! i) sel))]\<rparr>
          else Inl IndexError
      | _ \<Rightarrow> Inl KeyError)"

fun session :: "ext \<Rightarrow> nat \<Rightarrow> gesture list \<Rightarrow> dataframe option stmt" where
  "session E cur [] = ret None"
| "session E cur (Recluster sel # gs) =
     bind (deref cur) (\<lambda>a.
     bind (lib SubsetObs (subset_obs E a sel)) (\<lambda>sub.
     bind (alloc sub) (\<lambda>r.
     bind (re_cluster E r) (\<lambda>r'.
     session E r' gs))))"
| "session E cur (ExportToDataframe sel # gs) =
     bind (deref cur) (\<lambda>a.
     bind (lib ExportTable (export_table a sel)) (\<lambda>t.
     ret (Some t)))"

text \<open>
  \<^verbatim>\<open>v = visualize.Visualization(adata, markers, re_cluster_callback=re_cluster)\<close>,
  \<^verbatim>\<open>v.start('localhost')\<close>, \<^verbatim>\<open>selected_cells = v.new_df\<close>.
\<close>

definition cell_dashboard :: "ext \<Rightarrow> gesture list \<Rightarrow> unit stmt" where
  "cell_dashboard E user =
     bind (\<lambda>s. alloc (adata s) s) (\<lambda>r.
     bind (lib (Dashboard markers ''localhost'') (Inr ())) (\<lambda>_.
     bind (session E r user) (\<lambda>df.
     assign (\<lambda>s. s\<lparr>selected_cells := df\<rparr>))))"

section \<open>The exported selection\<close>

text \<open>
  \<^verbatim>\<open>print(selected_cells.shape)\<close> and \<^verbatim>\<open>selected_cells.head()\<close>. Without an export
  \<^verbatim>\<open>selected_cells\<close> is \<^verbatim>\<open>None\<close>, which has no attribute \<^verbatim>\<open>shape\<close>.
\<close>

definition cell_show_selection :: "unit stmt" where
  "cell_show_selection = (\<lambda>s.
     case selected_cells s of
       None \<Rightarrow> lib (GetAttr ''shape'') (Inl (LibraryError ''AttributeError'')) s
     | Some df \<Rightarrow>
         bind (lib (PrintShape (n_rows df) (length (cols df))) (Inr ())) (\<lambda>_.
         lib DisplayHead (Inr ())) s)"

text \<open>
  \<^verbatim>\<open>adata_selected_cells = adata[selected_cells.barcode.to_array(),:]\<close>: the column
  \<^verbatim>\<open>barcode\<close> of the table selects rows of the object by name.
\<close>

definition cell_link_selection :: "ext \<Rightarrow> unit stmt" where
  "cell_link_selection E = (\<lambda>s.
     case (case selected_cells s of None \<Rightarrow> None | Some df \<Rightarrow> map_of (cols df) ''barcode'') of
       None \<Rightarrow> lib (GetAttr ''barcode'') (Inl (LibraryError ''AttributeError'')) s
     | Some col \<Rightarrow>
         bind (lib SubsetNames (subset_names E (adata s) col)) (\<lambda>a.
         assign (\<lambda>s. s\<lparr>adata_selected_cells := a\<rparr>)) s)"

definition cell_show_linked :: "unit stmt" where
  "cell_show_linked = lib DisplayObject (Inr ())"

text \<open>The whole notebook: the pipeline, the plot, the dashboard, and the three cells after it.\<close>

definition notebook :: "ext \<Rightarrow> gesture list \<Rightarrow> unit stmt" where
  "notebook E user =
     run_cells (pipeline_cells E @
       [cell_plot E, cell_dashboard E user,
        cell_show_selection, cell_link_selection E, cell_show_linked])"

text \<open>A freshly started kernel: no call made, no variable assigned, no object allocated.\<close>

definition empty_anndata :: anndata where
  "empty_anndata = \<lparr>X = Matrix 0 [], obs_names = [], var_names = [],
                     obs = Map.empty, var = Map.empty, obsm = Map.empty, uns = Map.empty\<rparr>"

definition initial :: "(string \<rightharpoonup> string) \<Rightarrow> string set \<Rightarrow> state" where
  "initial fs ds =
     \<lparr>files = fs, dirs = ds, trace = [], adata = empty_anndata, genes = [], barcodes = [],
      sparse_gpu_array = Matrix 0 [], raw_marker_expressions = Map.empty,
      n_counts = [], percent_ribo = [], heap = (\<lambda>_. empty_anndata), next_ref = 0,
      selected_cells = None, adata_selected_cells = empty_anndata\<rparr>"

definition new_events :: "state \<Rightarrow> state \<Rightarrow> event list" where
  "new_events s s' = drop (length (trace s)) (trace s')"

section \<open>Properties of runs\<close>

text \<open>
  The events of a run propagate an exception when all of them but possibly the last
  succeeded, and the run's outcome is the exception of the last one, if it raised.
\<close>

fun propagates :: "event list \<Rightarrow> error option \<Rightarrow> bool" where
  "propagates [] r = (r = None)"
| "propagates ((c, None) # evs) r = propagates evs r"
| "propagates ((c, Some e) # evs) r = (evs = [] \<and> r = Some e)"

text \<open>
  The calls that are steps of the analysis, as opposed to accesses to a container
  (construction, assignment of names and columns, indexing), to the file system, and
  the display of a shape.
\<close>

fun operation :: "call \<Rightarrow> bool" where
  "operation (ScRead p) = True"
| "operation (FilterCells lo hi) = True"
| "operation (FilterGenes n) = True"
| "operation (NormalizeTotal t) = True"
| "operation Log1p = True"
| "operation (HighlyVariableGenes n f) = True"
| "operation RegressOut = True"
| "operation (Scale x) = True"
| "operation (PcaFitTransform n t) = True"
| "operation (Neighbors k n f) = True"
| "operation (Umap d sp f) = True"
| "operation (Louvain f) = True"
| "operation (PlotUmap cs) = True"
| "operation (Dashboard ms h) = True"
| "operation ExportTable = True"
| "operation _ = False"

definition operations :: "event list \<Rightarrow> call list" where
  "operations evs = filter operation (map fst evs)"

definition runs :: "'a stmt \<Rightarrow> call list \<Rightarrow> bool" where
  "runs m ops = (\<forall>s. \<exists>evs. trace (snd (m s)) = trace s @ evs \<and>
      propagates evs (outcome (fst (m s))) \<and> prefix (operations evs) ops \<and>
      (outcome (fst (m s)) = None \<longrightarrow> operations evs = ops))"

definition recluster_ops :: "call list" where
  "recluster_ops = [PcaFitTransform 50 None, Neighbors 15 50 ''rapids'',
                    Umap (3 / 10) 1 ''rapids'', Louvain ''rapids'']"

definition pipeline_ops :: "call list" where
  "pipeline_ops =
     [ScRead input_file, FilterCells 200 6000, FilterGenes 1, NormalizeTotal 10000, Log1p,
      HighlyVariableGenes 5000 ''cell_ranger'', RegressOut, Scale 10,
      PcaFitTransform 50 (Some ''numpy''), Neighbors 15 50 ''rapids'',
      Umap (3 / 10) 1 ''rapids'', Louvain ''rapids'']"

fun session_ops :: "gesture list \<Rightarrow> call list" where
  "session_ops [] = []"
| "session_ops (Recluster sel # gs) = recluster_ops @ session_ops gs"
| "session_ops (ExportToDataframe sel # gs) = [ExportTable]"

definition notebook_ops :: "gesture list \<Rightarrow> call list" where
  "notebook_ops user =
     pipeline_ops @ [PlotUmap [''louvain''], Dashboard markers ''localhost''] @ session_ops user"

text \<open>The configuration of a call, leaving out the array type in which PCA returns its result.\<close>

fun configuration :: "call \<Rightarrow> call" where
  "configuration (PcaFitTransform n t) = PcaFitTransform n None"
| "configuration c = c"

text \<open>The calls that touch the file system or the network.\<close>

fun fs_call :: "call \<Rightarrow> bool" where
  "fs_call (PathExists p) = True"
| "fs_call (Makedirs p ok) = True"
| "fs_call (WgetDownload url out) = True"
| "fs_call (ScRead p) = True"
| "fs_call _ = False"

definition fs_calls :: "event list \<Rightarrow> call list" where
  "fs_calls evs = filter fs_call (map fst evs)"

text \<open>
  A statement is offline when it makes no such call and runs the same way, and leaves
  the files and directories alone, whatever the file system holds.
\<close>

definition offline :: "'a stmt \<Rightarrow> bool" where
  "offline m = (\<forall>s. (\<forall>f d. m (s\<lparr>files := f, dirs := d\<rparr>) =
                              (fst (m s), (snd (m s))\<lparr>files := f, dirs := d\<rparr>)) \<and>
                     (\<exists>evs. trace (snd (m s)) = trace s @ evs \<and> fs_calls evs = []))"

text \<open>The paths of the files a run opens for reading.\<close>

fun read_path :: "call \<Rightarrow> string option" where
  "read_path (ScRead p) = Some p"
| "read_path _ = None"

definition reads :: "event list \<Rightarrow> string list" where
  "reads evs = List.map_filter read_path (map fst evs)"

text \<open>The first two cells: make sure the input file is there, and read it.\<close>

definition load :: "ext \<Rightarrow> unit stmt" where
  "load E = run_cells (take 2 (pipeline_cells E))"


text \<open>The state a run has reached after its first \<open>k\<close> cells.\<close>

definition after :: "ext \<Rightarrow> nat \<Rightarrow> state \<Rightarrow> state" where
  "after E k s = snd (run_cells (take k (pipeline_cells E)) s)"

section \<open>A small library, to run the notebook on\<close>

definition fl :: "real list list \<Rightarrow> float list list" where
  "fl xss = map (map Finite) xss"

text \<open>A gene is expressed in a matrix when some row has a non-zero entry in its column.\<close>

definition expressed :: "matrix \<Rightarrow> nat \<Rightarrow> bool" where
  "expressed m j = list_ex (\<lambda>row. row ! j \<noteq> Finite 0) (rows m)"

definition expressed_mask :: "matrix \<Rightarrow> bool list" where
  "expressed_mask m = map (expressed m) [0 ..< n_cols m]"

definition select :: "bool list \<Rightarrow> 'a list \<Rightarrow> 'a list" where
  "select keep xs = map snd (filter fst (zip keep xs))"

text \<open>\<^verbatim>\<open>X[:, mask]\<close>: a boolean mask must have one entry per column.\<close>

definition mask_columns :: "matrix \<Rightarrow> bool list \<Rightarrow> error + matrix" where
  "mask_columns m keep =
     (if length keep = n_cols m
      then Inr (Matrix (length (filter id keep)) (map (select keep) (rows m)))
      else Inl IndexError)"

text \<open>
  Gene filtering as the notebook describes it ("Some genes will now have zero expression
  in all cells. We filter out such genes."), with the kept names under a fresh index.
\<close>

definition drop_unexpressed :: "matrix \<Rightarrow> series \<Rightarrow> error + (matrix \<times> series)" where
  "drop_unexpressed m g =
     (case mask_columns m (expressed_mask m) of
        Inl e \<Rightarrow> Inl e
      | Inr m' \<Rightarrow> Inr (m', Series (select (expressed_mask m) (series_values g))))"

text \<open>Sums and quotients of floats; a quotient by zero is not a number.\<close>

fun fadd :: "float \<Rightarrow> float \<Rightarrow> float" where
  "fadd (Finite x) (Finite y) = Finite (x + y)"
| "fadd _ _ = NaN"

fun fdiv :: "float \<Rightarrow> float \<Rightarrow> float" where
  "fdiv (Finite x) (Finite y) = (if y = 0 then NaN else Finite (x / y))"
| "fdiv _ _ = NaN"

definition fsum :: "float list \<Rightarrow> float" where
  "fsum xs = foldr fadd xs (Finite 0)"

text \<open>The rows of an object whose names are in a column of names.\<close>

definition rows_named :: "anndata \<Rightarrow> column \<Rightarrow> error + anndata" where
  "rows_named a col =
     (case col of
        Num xs \<Rightarrow> Inl IndexError
      | Cat names \<Rightarrow>
          if list_all (\<lambda>n. n \<in> set (obs_names a)) names
          then Inr (a\<lparr>X := Matrix (n_cols (X a))
                           (map snd (filter (\<lambda>(n, r). n \<in> set names) (zip (obs_names a) (rows (X a))))),
                      obs_names := filter (\<lambda>n. n \<in> set names) (obs_names a)\<rparr>)
          else Inl KeyError)"

definition lung :: anndata where
  "lung = \<lparr>X = Matrix 4 (fl [[1, 0, 2, 0], [0, 0, 3, 1]]),
           obs_names = [''AAAC'', ''TTTG''],
           var_names = [''ACE2'', ''RPS4X'', ''TMPRSS2'', ''EPCAM''],
           obs = Map.empty, var = Map.empty, obsm = Map.empty, uns = Map.empty\<rparr>"

text \<open>The same cells, none of which expresses EPCAM.\<close>

definition lung_no_epcam :: anndata where
  "lung_no_epcam = lung\<lparr>X := Matrix 4 (fl [[1, 0, 2, 0], [0, 0, 3, 0]])\<rparr>"

definition E0 :: ext where
  "E0 = \<lparr>wget_download = (\<lambda>url. Inr ''lung''),
         h5ad_parse = (\<lambda>bytes. if bytes = ''lung'' then Inr lung
                                 else if bytes = ''lung_no_epcam'' then Inr lung_no_epcam
                                 else Inl (LibraryError ''OSError'')),
         filter_cells = (\<lambda>m lo hi b. Inr (m, b)),
         filter_genes = (\<lambda>m g n. drop_unexpressed m g),
         normalize_total = (\<lambda>m t. Inr m),
         log1p = (\<lambda>m. Inr m),
         new_anndata = (\<lambda>m. Inr (empty_anndata\<lparr>X := m\<rparr>)),
         set_var_names = (\<lambda>a ns. Inr (a\<lparr>var_names := ns\<rparr>)),
         set_obs_names = (\<lambda>a ns. Inr (a\<lparr>obs_names := ns\<rparr>)),
         set_obs_column = (\<lambda>a k v. Inr (a\<lparr>obs := (obs a)(k \<mapsto> Num v)\<rparr>)),
         set_obsm = (\<lambda>a k m. Inr (a\<lparr>obsm := (obsm a)(k \<mapsto> m)\<rparr>)),
         highly_variable_genes = (\<lambda>a n f. Inr (a\<lparr>var := (var a)(''highly_variable'' \<mapsto> map (\<lambda>_. True) (var_names a))\<rparr>)),
         subset_vars = (\<lambda>a keep. Inr a),
         regress_out = (\<lambda>m n p. Inr m),
         scale = (\<lambda>m x. Inr m),
         pca_fit_transform = (\<lambda>n t m. Inr m),
         neighbors = (\<lambda>a k n f. Inr a),
         umap = (\<lambda>a d sp f. Inr (a\<lparr>obsm := (obsm a)(''X_umap'' \<mapsto> Matrix 2 (map (\<lambda>_. [Finite 0, Finite 0]) (obs_names a)))\<rparr>)),
         louvain = (\<lambda>a f. Inr (a\<lparr>obs := (obs a)(''louvain'' \<mapsto> Cat (map (\<lambda>_. ''0'') (obs_names a)))\<rparr>)),
         pl_umap = (\<lambda>a cs. Inr ()),
         subset_obs = (\<lambda>a sel. Inr (a\<lparr>X := Matrix (n_cols (X a)) (map (\<lambda>i. rows (X a) ! i) sel),
                                          obs_names := map (\<lambda>i. obs_names a ! i) sel\<rparr>)),
         gpu_series = (\<lambda>xs. Inr (Series xs)),
         csr_matrix = (\<lambda>m. Inr m),
         tocsc = (\<lambda>m. Inr m),
         csc_matrix = (\<lambda>m. Inr m),
         sum_rows = (\<lambda>m. Inr (map fsum (rows m))),
         select_columns = mask_columns,
         divide = (\<lambda>xs ys. Inr (map2 fdiv xs ys)),
         cp_array = (\<lambda>xs. Inr xs),
         subset_names = rows_named\<rparr>"

text \<open>A file system that holds the input file.\<close>

definition disk :: "string \<rightharpoonup> string" where
  "disk = [input_file \<mapsto> ''lung'']"

text \<open>The state of the run on \<open>disk\<close> before the marker expressions are captured.\<close>

definition toy_state_11 :: state where
  "toy_state_11 = (initial disk {})
     \<lparr>trace := [(PathExists input_file, None), (ScRead input_file, None),
                 (DisplayShape 2 4, None), (GpuSeries, None), (GpuSeries, None),
                 (CsrMatrix, None), (FilterCells 200 6000, None), (FilterGenes 1, None),
                 (DisplayShape 2 3, None), (NormalizeTotal 10000, None), (Log1p, None),
                 (NewAnnData, None), (SetVarNames, None),
                 (HighlyVariableGenes 5000 ''cell_ranger'', None), (SubsetVars, None)],
      adata := \<lparr>X = Matrix 3 (fl [[1, 2, 0], [0, 3, 1]]), obs_names = [],
                  var_names = [''ACE2'', ''TMPRSS2'', ''EPCAM''],
                  obs = Map.empty, var = [''highly_variable'' \<mapsto> [True, True, True]],
                  obsm = Map.empty, uns = Map.empty\<rparr>,
      genes := [(0, ''ACE2''), (1, ''TMPRSS2''), (2, ''EPCAM'')],
      barcodes := [(0, ''AAAC''), (1, ''TTTG'')],
      sparse_gpu_array := Matrix 3 (fl [[1, 2, 0], [0, 3, 1]])\<rparr>"

text \<open>A session of the dashboard: re-cluster the second cell, then export the first.\<close>

definition toy_user :: "gesture list" where
  "toy_user = [Recluster [1], ExportToDataframe [0]]"

text \<open>A state whose store holds the object \<open>lung\<close> at address 0.\<close>

definition toy_store :: state where
  "toy_store = (initial disk {})\<lparr>heap := (\<lambda>_. empty_anndata)(0 := lung), next_ref := 1\<rparr>"
section \<open>Closed forms of the cells\<close>

lemmas closed_defs = bind_def ret_def lib_def assign_def outcome_def deref_def in_place_def on_adata_def

lemma cell_input_closed:
  "cell_input E s =
    (if files s input_file \<noteq> None \<or> input_file \<in> dirs s
     then (Inr (), logged (PathExists input_file) None s)
     else if files s ''../data'' \<noteq> None
     then (Inl (LibraryError ''FileExistsError''),
           logged (Makedirs ''../data'' True) (Some (LibraryError ''FileExistsError''))
             (logged (PrintLine ''Downloading import file...'') None
               (logged (PathExists input_file) None s)))
     else (case wget_download E input_url of
             Inl e \<Rightarrow> (Inl e,
               logged (WgetDownload input_url input_file) (Some e)
                 (logged (Makedirs ''../data'' True) None
                   ((logged (PrintLine ''Downloading import file...'') None
                      (logged (PathExists input_file) None s))\<lparr>dirs := insert ''../data'' (dirs s)\<rparr>)))
           | Inr bytes \<Rightarrow> (Inr (),
               (logged (WgetDownload input_url input_file) None
                 (logged (Makedirs ''../data'' True) None
                   ((logged (PrintLine ''Downloading import file...'') None
                      (logged (PathExists input_file) None s))\<lparr>dirs := insert ''../data'' (dirs s)\<rparr>)))
               \<lparr>files := (files s)(input_file \<mapsto> bytes)\<rparr>)))"
  by (simp add: cell_input_def os_path_exists_def print_line_def os_makedirs_def wget_def
        closed_defs logged_def split: sum.splits)

lemma cell_read_closed:
  "cell_read E s =
    (case (case files s input_file of
             None \<Rightarrow> Inl (LibraryError (if input_file \<in> dirs s then ''IsADirectoryError''
                                        else ''FileNotFoundError''))
           | Some b \<Rightarrow> h5ad_parse E b) of
       Inl e \<Rightarrow> (Inl e, logged (ScRead input_file) (Some e) s)
     | Inr a \<Rightarrow> (Inr (), (logged (ScRead input_file) None s)\<lparr>adata := a\<rparr>))"
  by (simp add: cell_read_def sc_read_def closed_defs split: sum.splits option.splits)

lemma cell_adata_shape_closed:
  "cell_adata_shape s =
     (Inr (), logged (DisplayShape (length (rows (X (adata s)))) (n_cols (X (adata s)))) None s)"
  by (simp add: cell_adata_shape_def display_shape_def shape_def closed_defs)

lemma cell_array_shape_closed:
  "cell_array_shape s =
     (Inr (), logged (DisplayShape (length (rows (sparse_gpu_array s))) (n_cols (sparse_gpu_array s))) None s)"
  by (simp add: cell_array_shape_def display_shape_def shape_def closed_defs)

lemma cell_to_gpu_closed:
  "cell_to_gpu E s =
    (case gpu_series E (var_names (adata s)) of
       Inl e \<Rightarrow> (Inl e, logged (GpuSeries) (Some e) (s))
     | Inr g \<Rightarrow>
         (case gpu_series E (obs_names (adata s)) of
           Inl e \<Rightarrow> (Inl e, logged (GpuSeries) (Some e) ((logged (GpuSeries) None (s))\<lparr>genes := g\<rparr>))
         | Inr b \<Rightarrow>
             (case csr_matrix E (X (adata s)) of
               Inl e \<Rightarrow> (Inl e, logged (CsrMatrix) (Some e) ((logged (GpuSeries) None (logged (GpuSeries) None (s)))\<lparr>genes := g, barcodes := b\<rparr>))
             | Inr m \<Rightarrow>
                 (Inr (), (logged (CsrMatrix) None (logged (GpuSeries) None (logged (GpuSeries) None (s))))\<lparr>genes := g, barcodes := b, sparse_gpu_array := m\<rparr>))))"
  by (simp add: cell_to_gpu_def closed_defs logged_def  split: sum.splits prod.splits option.splits)

lemma cell_filter_cells_closed:
  "cell_filter_cells E s =
    (case filter_cells E (sparse_gpu_array s) 200 6000 (barcodes s) of
       Inl e \<Rightarrow> (Inl e, logged (FilterCells 200 6000) (Some e) s)
     | Inr (m, b) \<Rightarrow> (Inr (), (logged (FilterCells 200 6000) None s)\<lparr>sparse_gpu_array := m, barcodes := b\<rparr>))"
  by (simp add: cell_filter_cells_def closed_defs min_genes_per_cell_def max_genes_per_cell_def
        split: sum.splits prod.splits)

lemma cell_filter_genes_closed:
  "cell_filter_genes E s =
    (case filter_genes E (sparse_gpu_array s) (genes s) 1 of
       Inl e \<Rightarrow> (Inl e, logged (FilterGenes 1) (Some e) s)
     | Inr (m, g) \<Rightarrow> (Inr (), (logged (FilterGenes 1) None s)\<lparr>sparse_gpu_array := m, genes := g\<rparr>))"
  by (simp add: cell_filter_genes_def closed_defs split: sum.splits prod.splits)

lemma cell_normalize_closed:
  "cell_normalize E s =
    (case normalize_total E (sparse_gpu_array s) 10000 of
       Inl e \<Rightarrow> (Inl e, logged (NormalizeTotal 10000) (Some e) s)
     | Inr m \<Rightarrow> (Inr (), (logged (NormalizeTotal 10000) None s)\<lparr>sparse_gpu_array := m\<rparr>))"
  by (simp add: cell_normalize_def closed_defs split: sum.splits)

lemma cell_log1p_closed:
  "cell_log1p E s =
    (case log1p E (sparse_gpu_array s) of
       Inl e \<Rightarrow> (Inl e, logged Log1p (Some e) s)
     | Inr m \<Rightarrow> (Inr (), (logged Log1p None s)\<lparr>sparse_gpu_array := m\<rparr>))"
  by (simp add: cell_log1p_def closed_defs split: sum.splits)

lemma cell_to_anndata_closed:
  "cell_to_anndata E s =
    (case new_anndata E (sparse_gpu_array s) of
       Inl e \<Rightarrow> (Inl e, logged NewAnnData (Some e) s)
     | Inr a \<Rightarrow>
        (case set_var_names E a (series_values (genes s)) of
           Inl e \<Rightarrow> (Inl e, logged SetVarNames (Some e) ((logged NewAnnData None s)\<lparr>adata := a\<rparr>))
         | Inr a' \<Rightarrow> (Inr (), (logged SetVarNames None (logged NewAnnData None s))\<lparr>adata := a'\<rparr>)))"
  by (simp add: cell_to_anndata_def closed_defs logged_def split: sum.splits)

lemma cell_hvg_closed:
  "cell_hvg E s =
    (case highly_variable_genes E (adata s) 5000 ''cell_ranger'' of
       Inl e \<Rightarrow> (Inl e, logged (HighlyVariableGenes 5000 ''cell_ranger'') (Some e) s)
     | Inr a \<Rightarrow>
        (case (case var a ''highly_variable'' of
                 None \<Rightarrow> Inl (LibraryError ''AttributeError'')
               | Some keep \<Rightarrow> subset_vars E a keep) of
           Inl e \<Rightarrow> (Inl e, logged SubsetVars (Some e)
                       ((logged (HighlyVariableGenes 5000 ''cell_ranger'') None s)\<lparr>adata := a\<rparr>))
         | Inr a' \<Rightarrow> (Inr (), (logged SubsetVars None
                       (logged (HighlyVariableGenes 5000 ''cell_ranger'') None s))\<lparr>adata := a'\<rparr>)))"
  by (simp add: cell_hvg_def closed_defs logged_def n_top_genes_def split: sum.splits option.splits)


lemma capture_closed:
  "capture (marker # ms) tmp_norm s =
    (case index_first (genes s) marker of
       Inl e \<Rightarrow> (Inl e, logged (IndexFirst marker) (Some e) s)
     | Inr j \<Rightarrow>
        (case get_column tmp_norm j of
           Inl e \<Rightarrow> (Inl e, logged (GetColumn j) (Some e) (logged (IndexFirst marker) None s))
         | Inr col \<Rightarrow>
            capture ms tmp_norm
              ((logged (GetColumn j) None (logged (IndexFirst marker) None s))
                 \<lparr>raw_marker_expressions := (raw_marker_expressions s)(marker \<mapsto> col)\<rparr>)))"
  by (simp add: closed_defs logged_def split: sum.splits)

lemma capture_Nil_closed: "capture [] tmp_norm s = (Inr (), s)"
  by (simp add: ret_def)

lemma cell_capture_closed:
  "cell_capture E s =
    (case tocsc E (sparse_gpu_array s) of
       Inl e \<Rightarrow> (Inl e, logged ToCsc (Some e) s)
     | Inr tmp_norm \<Rightarrow>
         capture markers tmp_norm ((logged ToCsc None s)\<lparr>raw_marker_expressions := Map.empty\<rparr>))"
  by (simp add: cell_capture_def closed_defs logged_def split: sum.splits)

lemma cell_confounders_closed:
  "cell_confounders E s =
    (case sum_rows E (X (adata s)) of
       Inl e \<Rightarrow> (Inl e, logged (SumRows) (Some e) ((s)\<lparr>genes := Series (var_names (adata s))\<rparr>))
     | Inr n \<Rightarrow>
         (case select_columns E (X (adata s)) (map (\<lambda>g. startswith g RIBO_GENE_PREFIX) (var_names (adata s))) of
           Inl e \<Rightarrow> (Inl e, logged (SelectColumns) (Some e) ((logged (SumRows) None (s))\<lparr>genes := Series (var_names (adata s)), n_counts := n\<rparr>))
         | Inr ribo \<Rightarrow>
             (case sum_rows E ribo of
               Inl e \<Rightarrow> (Inl e, logged (SumRows) (Some e) ((logged (SelectColumns) None (logged (SumRows) None (s)))\<lparr>genes := Series (var_names (adata s)), n_counts := n\<rparr>))
             | Inr r \<Rightarrow>
                 (case divide E r n of
                   Inl e \<Rightarrow> (Inl e, logged (Divide) (Some e) ((logged (SumRows) None (logged (SelectColumns) None (logged (SumRows) None (s))))\<lparr>genes := Series (var_names (adata s)), n_counts := n\<rparr>))
                 | Inr p \<Rightarrow>
                     (case cp_array E n of
                       Inl e \<Rightarrow> (Inl e, logged (CpArray) (Some e) ((logged (Divide) None (logged (SumRows) None (logged (SelectColumns) None (logged (SumRows) None (s)))))\<lparr>genes := Series (var_names (adata s)), n_counts := n, percent_ribo := p\<rparr>))
                     | Inr n' \<Rightarrow>
                         (case cp_array E p of
                           Inl e \<Rightarrow> (Inl e, logged (CpArray) (Some e) ((logged (CpArray) None (logged (Divide) None (logged (SumRows) None (logged (SelectColumns) None (logged (SumRows) None (s))))))\<lparr>genes := Series (var_names (adata s)), n_counts := n, percent_ribo := p, n_counts := n'\<rparr>))
                         | Inr p' \<Rightarrow>
                             (Inr (), (logged (CpArray) None (logged (CpArray) None (logged (Divide) None (logged (SumRows) None (logged (SelectColumns) None (logged (SumRows) None (s)))))))\<lparr>genes := Series (var_names (adata s)), n_counts := n, percent_ribo := p, n_counts := n', percent_ribo := p'\<rparr>)))))))"
  by (simp add: cell_confounders_def closed_defs logged_def  split: sum.splits prod.splits option.splits)

lemma cell_regress_closed:
  "cell_regress E s =
    (case csc_matrix E (X (adata s)) of
       Inl e \<Rightarrow> (Inl e, logged (CscMatrix) (Some e) (s))
     | Inr m \<Rightarrow>
         (case regress_out E m (n_counts s) (percent_ribo s) of
           Inl e \<Rightarrow> (Inl e, logged (RegressOut) (Some e) ((logged (CscMatrix) None (s))\<lparr>sparse_gpu_array := m\<rparr>))
         | Inr m' \<Rightarrow>
             (Inr (), (logged (RegressOut) None (logged (CscMatrix) None (s)))\<lparr>sparse_gpu_array := m, sparse_gpu_array := m'\<rparr>)))"
  by (simp add: cell_regress_def closed_defs logged_def  split: sum.splits prod.splits option.splits)

lemma cell_scale_closed:
  "cell_scale E s =
    (case scale E (sparse_gpu_array s) 10 of
       Inl e \<Rightarrow> (Inl e, logged (Scale 10) (Some e) s)
     | Inr m \<Rightarrow> (Inr (), (logged (Scale 10) None s)\<lparr>sparse_gpu_array := m\<rparr>))"
  by (simp add: cell_scale_def closed_defs split: sum.splits)

lemma on_adata_closed:
  "on_adata c f s =
    (case f (adata s) of
       Inl e \<Rightarrow> (Inl e, logged c (Some e) s)
     | Inr a \<Rightarrow> (Inr (), (logged c None s)\<lparr>adata := a\<rparr>))"
  by (simp add: closed_defs split: sum.splits)

lemma attach_closed:
  "attach E (marker # ms) s =
    (case (case raw_marker_expressions s marker of
             None \<Rightarrow> Inl KeyError
           | Some col \<Rightarrow> set_obs_column E (adata s) (marker @ ''_raw'') col) of
       Inl e \<Rightarrow> (Inl e, logged (SetObsColumn (marker @ ''_raw'')) (Some e) s)
     | Inr a \<Rightarrow> attach E ms ((logged (SetObsColumn (marker @ ''_raw'')) None s)\<lparr>adata := a\<rparr>))"
  by (simp add: bind_def on_adata_closed split: sum.splits)

lemma attach_Nil_closed: "attach E [] s = (Inr (), s)"
  by (simp add: ret_def)

lemma cell_attach_closed:
  "cell_attach E s =
    (case new_anndata E (sparse_gpu_array s) of
       Inl e \<Rightarrow> (Inl e, logged NewAnnData (Some e) s)
     | Inr a \<Rightarrow>
        (case set_var_names E a (series_values (genes s)) of
           Inl e \<Rightarrow> (Inl e, logged SetVarNames (Some e) ((logged NewAnnData None s)\<lparr>adata := a\<rparr>))
         | Inr a1 \<Rightarrow>
            (case set_obs_names E a1 (series_values (barcodes s)) of
               Inl e \<Rightarrow> (Inl e, logged SetObsNames (Some e)
                           ((logged SetVarNames None (logged NewAnnData None s))\<lparr>adata := a1\<rparr>))
             | Inr a2 \<Rightarrow>
                attach E markers
                  ((logged SetObsNames None (logged SetVarNames None (logged NewAnnData None s)))
                     \<lparr>adata := a2\<rparr>))))"
  by (simp add: cell_attach_def bind_def lib_def assign_def outcome_def on_adata_closed logged_def
        split: sum.splits)

lemma cell_pca_closed:
  "cell_pca E s =
    (case pca_fit_transform E 50 (Some ''numpy'') (X (adata s)) of
       Inl e \<Rightarrow> (Inl e, logged (PcaFitTransform 50 (Some ''numpy'')) (Some e) s)
     | Inr p \<Rightarrow>
        (case set_obsm E (adata s) ''X_pca'' p of
           Inl e \<Rightarrow> (Inl e, logged (SetObsm ''X_pca'') (Some e)
                       (logged (PcaFitTransform 50 (Some ''numpy'')) None s))
         | Inr a \<Rightarrow> (Inr (), (logged (SetObsm ''X_pca'') None
                       (logged (PcaFitTransform 50 (Some ''numpy'')) None s))\<lparr>adata := a\<rparr>)))"
  by (simp add: cell_pca_def closed_defs logged_def n_components_def split: sum.splits)

lemma cell_neighbors_closed:
  "cell_neighbors E s =
    (case neighbors E (adata s) 15 50 ''rapids'' of
       Inl e \<Rightarrow> (Inl e, logged (Neighbors 15 50 ''rapids'') (Some e) s)
     | Inr a \<Rightarrow> (Inr (), (logged (Neighbors 15 50 ''rapids'') None s)\<lparr>adata := a\<rparr>))"
  by (simp add: cell_neighbors_def on_adata_closed n_neighbors_def knn_n_pcs_def)

lemma cell_umap_closed:
  "cell_umap E s =
    (case umap E (adata s) (3 / 10) 1 ''rapids'' of
       Inl e \<Rightarrow> (Inl e, logged (Umap (3 / 10) 1 ''rapids'') (Some e) s)
     | Inr a \<Rightarrow> (Inr (), (logged (Umap (3 / 10) 1 ''rapids'') None s)\<lparr>adata := a\<rparr>))"
  by (simp add: cell_umap_def on_adata_closed umap_min_dist_def umap_spread_def)

lemma cell_louvain_closed:
  "cell_louvain E s =
    (case louvain E (adata s) ''rapids'' of
       Inl e \<Rightarrow> (Inl e, logged (Louvain ''rapids'') (Some e) s)
     | Inr a \<Rightarrow> (Inr (), (logged (Louvain ''rapids'') None s)\<lparr>adata := a\<rparr>))"
  by (simp add: cell_louvain_def on_adata_closed)

lemma cell_plot_closed:
  "cell_plot E s =
    (case pl_umap E (adata s) [''louvain''] of
       Inl e \<Rightarrow> (Inl e, logged (PlotUmap [''louvain'']) (Some e) s)
     | Inr u \<Rightarrow> (Inr (), logged (PlotUmap [''louvain'']) None s))"
  by (simp add: cell_plot_def closed_defs split: sum.splits)


lemma in_place_closed:
  "in_place r c f s =
    (case f (heap s r) of
       Inl e \<Rightarrow> (Inl e, logged c (Some e) s)
     | Inr a \<Rightarrow> (Inr (), (logged c None s)\<lparr>heap := (heap s)(r := a)\<rparr>))"
  by (simp add: closed_defs logged_def split: sum.splits)

lemma re_cluster_closed:
  "re_cluster E r s =
    (case pca_fit_transform E 50 None (X (heap s r)) of
       Inl e \<Rightarrow> (Inl e, logged (PcaFitTransform 50 None) (Some e) s)
     | Inr p \<Rightarrow>
    (case set_obsm E (heap s r) ''X_pca'' p of
       Inl e \<Rightarrow> (Inl e, logged (SetObsm ''X_pca'') (Some e) (logged (PcaFitTransform 50 None) None s))
     | Inr a1 \<Rightarrow>
    (case neighbors E a1 15 50 ''rapids'' of
       Inl e \<Rightarrow> (Inl e, logged (Neighbors 15 50 ''rapids'') (Some e)
                   ((logged (SetObsm ''X_pca'') None (logged (PcaFitTransform 50 None) None s))
                      \<lparr>heap := (heap s)(r := a1)\<rparr>))
     | Inr a2 \<Rightarrow>
    (case umap E a2 (3 / 10) 1 ''rapids'' of
       Inl e \<Rightarrow> (Inl e, logged (Umap (3 / 10) 1 ''rapids'') (Some e)
                   ((logged (Neighbors 15 50 ''rapids'') None (logged (SetObsm ''X_pca'') None
                      (logged (PcaFitTransform 50 None) None s)))\<lparr>heap := (heap s)(r := a2)\<rparr>))
     | Inr a3 \<Rightarrow>
    (case louvain E a3 ''rapids'' of
       Inl e \<Rightarrow> (Inl e, logged (Louvain ''rapids'') (Some e)
                   ((logged (Umap (3 / 10) 1 ''rapids'') None (logged (Neighbors 15 50 ''rapids'') None
                      (logged (SetObsm ''X_pca'') None (logged (PcaFitTransform 50 None) None s))))
                      \<lparr>heap := (heap s)(r := a3)\<rparr>))
     | Inr a4 \<Rightarrow>
        (Inr r, (logged (Louvain ''rapids'') None (logged (Umap (3 / 10) 1 ''rapids'') None
                  (logged (Neighbors 15 50 ''rapids'') None (logged (SetObsm ''X_pca'') None
                  (logged (PcaFitTransform 50 None) None s)))))\<lparr>heap := (heap s)(r := a4)\<rparr>))))))"
  by (simp add: re_cluster_def in_place_closed bind_def ret_def lib_def deref_def outcome_def logged_def
        n_components_def n_neighbors_def knn_n_pcs_def umap_min_dist_def umap_spread_def
        split: sum.splits)

lemma session_Nil_closed: "session E cur [] s = (Inr None, s)"
  by (simp add: ret_def)

lemma session_Recluster_closed:
  "session E cur (Recluster sel # gs) s =
    (case subset_obs E (heap s cur) sel of
       Inl e \<Rightarrow> (Inl e, logged SubsetObs (Some e) s)
     | Inr sub \<Rightarrow>
        (case re_cluster E (next_ref s)
                ((logged SubsetObs None s)\<lparr>heap := (heap s)(next_ref s := sub),
                                            next_ref := Suc (next_ref s)\<rparr>) of
           (Inl e, s') \<Rightarrow> (Inl e, s')
         | (Inr r', s') \<Rightarrow> session E r' gs s'))"
  by (simp add: bind_def lib_def deref_def outcome_def alloc_def logged_def split: sum.splits prod.splits)

lemma session_Export_closed:
  "session E cur (ExportToDataframe sel # gs) s =
    (case export_table (heap s cur) sel of
       Inl e \<Rightarrow> (Inl e, logged ExportTable (Some e) s)
     | Inr t \<Rightarrow> (Inr (Some t), logged ExportTable None s))"
  by (simp add: bind_def lib_def deref_def outcome_def ret_def split: sum.splits)

lemma cell_dashboard_closed:
  "cell_dashboard E user s =
    (case session E (next_ref s) user
            (logged (Dashboard markers ''localhost'') None
               (s\<lparr>heap := (heap s)(next_ref s := adata s), next_ref := Suc (next_ref s)\<rparr>)) of
       (Inl e, s') \<Rightarrow> (Inl e, s')
     | (Inr df, s') \<Rightarrow> (Inr (), s'\<lparr>selected_cells := df\<rparr>))"
  by (simp add: cell_dashboard_def bind_def lib_def outcome_def alloc_def assign_def logged_def
        split: sum.splits prod.splits)

lemma cell_show_selection_closed:
  "cell_show_selection s =
    (case selected_cells s of
       None \<Rightarrow> (Inl (LibraryError ''AttributeError''),
                 logged (GetAttr ''shape'') (Some (LibraryError ''AttributeError'')) s)
     | Some df \<Rightarrow> (Inr (), logged DisplayHead None
                              (logged (PrintShape (n_rows df) (length (cols df))) None s)))"
  by (simp add: cell_show_selection_def closed_defs split: option.splits)

lemma cell_link_selection_closed:
  "cell_link_selection E s =
    (case (case selected_cells s of None \<Rightarrow> None | Some df \<Rightarrow> map_of (cols df) ''barcode'') of
       None \<Rightarrow> (Inl (LibraryError ''AttributeError''),
                 logged (GetAttr ''barcode'') (Some (LibraryError ''AttributeError'')) s)
     | Some col \<Rightarrow>
        (case subset_names E (adata s) col of
           Inl e \<Rightarrow> (Inl e, logged SubsetNames (Some e) s)
         | Inr a \<Rightarrow> (Inr (), (logged SubsetNames None s)\<lparr>adata_selected_cells := a\<rparr>)))"
  by (simp add: cell_link_selection_def closed_defs split: option.splits sum.splits)

lemma cell_show_linked_closed:
  "cell_show_linked s = (Inr (), logged DisplayObject None s)"
  by (simp add: cell_show_linked_def closed_defs)

section \<open>Runs and their events\<close>

lemma propagates_append:
  "propagates evs None \<Longrightarrow> propagates evs' r \<Longrightarrow> propagates (evs @ evs') r"
  by (induction evs "None :: error option" rule: propagates.induct) auto

lemma operations_append [simp]: "operations (xs @ ys) = operations xs @ operations ys"
  by (simp add: operations_def)

lemma runs_ret: "runs (ret x) []"
  by (simp add: runs_def ret_def outcome_def operations_def)

lemma runs_assign: "(\<And>s. trace (f s) = trace s) \<Longrightarrow> runs (assign f) []"
  by (simp add: runs_def assign_def outcome_def operations_def)

lemma runs_lib: "runs (lib c r) (if operation c then [c] else [])"
  by (cases r) (simp_all add: runs_def lib_def logged_def outcome_def operations_def)

lemma runs_bind:
  assumes "runs m ops1" and "\<And>x. runs (f x) ops2"
  shows "runs (bind m f) (ops1 @ ops2)"
  unfolding runs_def
proof
  fix s
  from assms(1) obtain evs where m: "trace (snd (m s)) = trace s @ evs"
    "propagates evs (outcome (fst (m s)))" "prefix (operations evs) ops1"
    "outcome (fst (m s)) = None \<longrightarrow> operations evs = ops1"
    unfolding runs_def by blast
  show "\<exists>evs. trace (snd (bind m f s)) = trace s @ evs \<and>
      propagates evs (outcome (fst (bind m f s))) \<and> prefix (operations evs) (ops1 @ ops2) \<and>
      (outcome (fst (bind m f s)) = None \<longrightarrow> operations evs = ops1 @ ops2)"
  proof (cases "m s")
    case (Pair r s1)
    show ?thesis
    proof (cases r)
      case (Inl e)
      with Pair m show ?thesis by (auto simp: bind_def outcome_def)
    next
      case (Inr x)
      from assms(2)[of x] obtain evs' where f: "trace (snd (f x s1)) = trace s1 @ evs'"
        "propagates evs' (outcome (fst (f x s1)))" "prefix (operations evs') ops2"
        "outcome (fst (f x s1)) = None \<longrightarrow> operations evs' = ops2"
        unfolding runs_def by blast
      from Pair Inr m have ok: "propagates evs None" "operations evs = ops1"
        by (simp_all add: outcome_def)
      from ok(1) f(2) have "propagates (evs @ evs') (outcome (fst (f x s1)))"
        by (rule propagates_append)
      with Pair Inr m f ok show ?thesis by (auto simp: bind_def)
    qed
  qed
qed

lemma runs_bind_nil:
  "runs m [] \<Longrightarrow> (\<And>x. runs (f x) ops) \<Longrightarrow> runs (bind m f) ops"
  using runs_bind[of m "[]" f ops] by simp

lemma runs_dep: "(\<And>t. runs (g t) ops) \<Longrightarrow> runs (\<lambda>s. g s s) ops"
  by (simp add: runs_def)

lemmas runs_closed = runs_def logged_def operations_def outcome_def

lemma runs_cell_input: "runs (cell_input E) []"
  by (auto simp: runs_closed cell_input_closed  split: sum.splits prod.splits option.splits)

lemma runs_cell_read: "runs (cell_read E) [ScRead input_file]"
  by (auto simp: runs_closed cell_read_closed  split: sum.splits prod.splits option.splits)

lemma runs_cell_adata_shape: "runs (cell_adata_shape) []"
  by (auto simp: runs_closed cell_adata_shape_closed  split: sum.splits prod.splits option.splits)

lemma runs_cell_to_gpu: "runs (cell_to_gpu E) []"
  by (auto simp: runs_closed cell_to_gpu_closed  split: sum.splits prod.splits option.splits)

lemma runs_cell_filter_cells: "runs (cell_filter_cells E) [FilterCells 200 6000]"
  by (auto simp: runs_closed cell_filter_cells_closed  split: sum.splits prod.splits option.splits)

lemma runs_cell_filter_genes: "runs (cell_filter_genes E) [FilterGenes 1]"
  by (auto simp: runs_closed cell_filter_genes_closed  split: sum.splits prod.splits option.splits)

lemma runs_cell_array_shape: "runs (cell_array_shape) []"
  by (auto simp: runs_closed cell_array_shape_closed  split: sum.splits prod.splits option.splits)

lemma runs_cell_normalize: "runs (cell_normalize E) [NormalizeTotal 10000]"
  by (auto simp: runs_closed cell_normalize_closed  split: sum.splits prod.splits option.splits)

lemma runs_cell_log1p: "runs (cell_log1p E) [Log1p]"
  by (auto simp: runs_closed cell_log1p_closed  split: sum.splits prod.splits option.splits)

lemma runs_cell_to_anndata: "runs (cell_to_anndata E) []"
  by (auto simp: runs_closed cell_to_anndata_closed  split: sum.splits prod.splits option.splits)

lemma runs_cell_hvg: "runs (cell_hvg E) [HighlyVariableGenes 5000 ''cell_ranger'']"
  by (auto simp: runs_closed cell_hvg_closed  split: sum.splits prod.splits option.splits)

lemma runs_cell_confounders: "runs (cell_confounders E) []"
  by (auto simp: runs_closed cell_confounders_closed  split: sum.splits prod.splits option.splits)

lemma runs_cell_regress: "runs (cell_regress E) [RegressOut]"
  by (auto simp: runs_closed cell_regress_closed  split: sum.splits prod.splits option.splits)

lemma runs_cell_scale: "runs (cell_scale E) [Scale 10]"
  by (auto simp: runs_closed cell_scale_closed  split: sum.splits prod.splits option.splits)

lemma runs_cell_pca: "runs (cell_pca E) [PcaFitTransform 50 (Some ''numpy'')]"
  by (auto simp: runs_closed cell_pca_closed  split: sum.splits prod.splits option.splits)

lemma runs_cell_neighbors: "runs (cell_neighbors E) [Neighbors 15 50 ''rapids'']"
  by (auto simp: runs_closed cell_neighbors_closed  split: sum.splits prod.splits option.splits)

lemma runs_cell_umap: "runs (cell_umap E) [Umap (3 / 10) 1 ''rapids'']"
  by (auto simp: runs_closed cell_umap_closed  split: sum.splits prod.splits option.splits)

lemma runs_cell_louvain: "runs (cell_louvain E) [Louvain ''rapids'']"
  by (auto simp: runs_closed cell_louvain_closed  split: sum.splits prod.splits option.splits)

lemma runs_cell_plot: "runs (cell_plot E) [PlotUmap [''louvain'']]"
  by (auto simp: runs_closed cell_plot_closed  split: sum.splits prod.splits option.splits)

lemma runs_cell_show_selection: "runs (cell_show_selection) []"
  by (auto simp: runs_closed cell_show_selection_closed  split: sum.splits prod.splits option.splits)

lemma runs_cell_link_selection: "runs (cell_link_selection E) []"
  by (auto simp: runs_closed cell_link_selection_closed  split: sum.splits prod.splits option.splits)

lemma runs_cell_show_linked: "runs (cell_show_linked) []"
  by (auto simp: runs_closed cell_show_linked_closed  split: sum.splits prod.splits option.splits)

lemma runs_re_cluster: "runs (re_cluster E r) recluster_ops"
  by (auto simp: runs_closed re_cluster_closed recluster_ops_def split: sum.splits prod.splits option.splits)

lemmas stmt_defs = bind_def ret_def lib_def logged_def assign_def outcome_def deref_def in_place_def on_adata_def


lemmas runs_unfold = runs_def stmt_defs operations_def

lemma runs_lib_quiet: "\<not> operation c \<Longrightarrow> runs (\<lambda>s. lib c (g s) s) []"
  by (auto simp: runs_unfold split: sum.splits)

lemma runs_lib_op: "operation c \<Longrightarrow> runs (\<lambda>s. lib c (g s) s) [c]"
  by (auto simp: runs_unfold split: sum.splits)

lemma runs_lib_quiet': "\<not> operation c \<Longrightarrow> runs (lib c r) []"
  by (auto simp: runs_unfold split: sum.splits)

lemma runs_lib_op': "operation c \<Longrightarrow> runs (lib c r) [c]"
  by (auto simp: runs_unfold split: sum.splits)

lemma runs_deref: "runs (deref r) []"
  by (auto simp: runs_unfold split: option.splits)

lemma runs_alloc: "runs (alloc a) []"
  by (auto simp: runs_unfold alloc_def)

lemma runs_alloc_dep: "runs (\<lambda>s. alloc (g s) s) []"
  by (auto simp: runs_unfold alloc_def)

lemma runs_capture: "runs (capture ms m) []"
proof (induction ms)
  case Nil
  show ?case by (simp add: runs_ret)
next
  case (Cons marker ms)
  show ?case
    unfolding capture.simps
    apply (rule runs_bind_nil)
     apply (rule runs_lib_quiet, simp)
    apply (rule runs_bind_nil)
     apply (rule runs_lib_quiet', simp)
    apply (rule runs_bind_nil)
     apply (rule runs_assign, simp)
    apply (rule Cons.IH)
    done
qed

lemma runs_cell_capture: "runs (cell_capture E) []"
  unfolding cell_capture_def
  apply (rule runs_bind_nil)
   apply (rule runs_lib_quiet, simp)
  apply (rule runs_bind_nil)
   apply (rule runs_assign, simp)
  apply (rule runs_capture)
  done

lemma runs_on_adata_quiet: "\<not> operation c \<Longrightarrow> runs (on_adata c f) []"
  by (auto simp: runs_unfold split: sum.splits)

lemma runs_on_adata_quiet_dep: "\<not> operation c \<Longrightarrow> runs (\<lambda>s. on_adata c (f s) s) []"
  by (auto simp: runs_unfold split: sum.splits)

lemma runs_attach: "runs (attach E ms) []"
proof (induction ms)
  case Nil
  show ?case by (simp add: runs_ret)
next
  case (Cons marker ms)
  show ?case
    unfolding attach.simps
    apply (rule runs_bind_nil)
     apply (rule runs_on_adata_quiet_dep, simp)
    apply (rule Cons.IH)
    done
qed

lemma runs_cell_attach: "runs (cell_attach E) []"
  unfolding cell_attach_def
  apply (rule runs_bind_nil)
   apply (rule runs_lib_quiet, simp)
  apply (rule runs_bind_nil)
   apply (rule runs_assign, simp)
  apply (rule runs_bind_nil)
   apply (rule runs_on_adata_quiet_dep, simp)
  apply (rule runs_bind_nil)
   apply (rule runs_on_adata_quiet_dep, simp)
  apply (rule runs_attach)
  done

lemma runs_session: "runs (session E cur gs) (session_ops gs)"
proof (induction gs arbitrary: cur)
  case Nil
  show ?case by (simp add: runs_ret)
next
  case (Cons g gs)
  show ?case
  proof (cases g)
    case (Recluster sel)
    show ?thesis
      unfolding Recluster session.simps session_ops.simps
      apply (rule runs_bind_nil)
       apply (rule runs_deref)
      apply (rule runs_bind_nil)
       apply (rule runs_lib_quiet', simp)
      apply (rule runs_bind_nil)
       apply (rule runs_alloc)
      apply (rule runs_bind)
       apply (rule runs_re_cluster)
      apply (rule Cons.IH)
      done
  next
    case (ExportToDataframe sel)
    show ?thesis
      unfolding ExportToDataframe session.simps session_ops.simps
      apply (rule runs_bind_nil)
       apply (rule runs_deref)
      apply (rule runs_bind[where ?ops2.0 = "[]", simplified])
       apply (rule runs_lib_op', simp)
      apply (rule runs_ret)
      done
  qed
qed

lemma runs_cell_dashboard:
  "runs (cell_dashboard E user) (Dashboard markers ''localhost'' # session_ops user)"
  unfolding cell_dashboard_def
  apply (rule runs_bind_nil)
   apply (rule runs_alloc_dep)
  apply (rule runs_bind[where ?ops1.0 = "[Dashboard markers ''localhost'']", simplified])
   apply (rule runs_lib_op', simp)
  apply (rule runs_bind[where ?ops2.0 = "[]", simplified])
   apply (rule runs_session)
  apply (rule runs_assign, simp)
  done


lemma runs_cells_Cons:
  "runs c ops1 \<Longrightarrow> runs (run_cells cs) ops2 \<Longrightarrow> runs (run_cells (c # cs)) (ops1 @ ops2)"
  by (simp add: runs_bind)

lemma runs_cells_Nil: "runs (run_cells []) []"
  by (simp add: runs_ret)

lemma runs_clustering: "runs (run_cells (clustering_cells E))
    [PcaFitTransform 50 (Some ''numpy''), Neighbors 15 50 ''rapids'', Umap (3 / 10) 1 ''rapids'', Louvain ''rapids'']"
  unfolding clustering_cells_def
  using runs_cells_Cons[OF runs_cell_pca runs_cells_Cons[OF runs_cell_neighbors
          runs_cells_Cons[OF runs_cell_umap runs_cells_Cons[OF runs_cell_louvain runs_cells_Nil]]]]
  by simp

lemma runs_tail: "runs (run_cells [cell_plot E, cell_dashboard E user,
                               cell_show_selection, cell_link_selection E, cell_show_linked])
    ([PlotUmap [''louvain''], Dashboard markers ''localhost''] @ session_ops user)"
  using runs_cells_Cons[OF runs_cell_plot runs_cells_Cons[OF runs_cell_dashboard
        runs_cells_Cons[OF runs_cell_show_selection runs_cells_Cons[OF runs_cell_link_selection
        runs_cells_Cons[OF runs_cell_show_linked runs_cells_Nil]]]]]
  by simp

lemma runs_pipeline: "runs (pipeline E) pipeline_ops"
  unfolding pipeline_def pipeline_cells_def pipeline_ops_def
  using runs_cells_Cons[OF runs_cell_input runs_cells_Cons[OF runs_cell_read
        runs_cells_Cons[OF runs_cell_adata_shape runs_cells_Cons[OF runs_cell_to_gpu
        runs_cells_Cons[OF runs_cell_filter_cells runs_cells_Cons[OF runs_cell_filter_genes
        runs_cells_Cons[OF runs_cell_array_shape runs_cells_Cons[OF runs_cell_normalize
        runs_cells_Cons[OF runs_cell_log1p runs_cells_Cons[OF runs_cell_to_anndata
        runs_cells_Cons[OF runs_cell_hvg runs_cells_Cons[OF runs_cell_capture
        runs_cells_Cons[OF runs_cell_confounders runs_cells_Cons[OF runs_cell_regress
        runs_cells_Cons[OF runs_cell_scale runs_cells_Cons[OF runs_cell_attach
        runs_cells_Cons[OF runs_cell_pca runs_cells_Cons[OF runs_cell_neighbors
        runs_cells_Cons[OF runs_cell_umap runs_cells_Cons[OF runs_cell_louvain runs_cells_Nil]]]]]]]]]]]]]]]]]]]]
  by simp

lemma bind_assoc: "bind (bind m f) g = bind m (\<lambda>x. bind (f x) g)"
  by (auto simp: bind_def fun_eq_iff split: prod.splits sum.splits)

lemma bind_ret_left: "bind (ret x) f = f x"
  by (simp add: bind_def ret_def)

lemma run_cells_append: "run_cells (xs @ ys) = bind (run_cells xs) (\<lambda>_. run_cells ys)"
  by (induction xs) (simp_all add: bind_assoc bind_ret_left)

lemma runs_notebook: "runs (notebook E user) (notebook_ops user)"
  unfolding notebook_def notebook_ops_def run_cells_append
  using runs_bind[OF runs_pipeline[unfolded pipeline_def] runs_tail] by simp

lemma runs_events:
  assumes "runs m ops"
  shows "propagates (new_events s (snd (m s))) (outcome (fst (m s)))"
    and "prefix (operations (new_events s (snd (m s)))) ops"
    and "outcome (fst (m s)) = None \<Longrightarrow> operations (new_events s (snd (m s))) = ops"
  using assms unfolding runs_def new_events_def
  by (metis append_eq_conv_conj)+


lemma outcome_None: "outcome r = None \<longleftrightarrow> (\<exists>x. r = Inr x)"
  by (cases r) (simp_all add: outcome_def)


section \<open>Running the notebook on the small library\<close>

lemma run_cells_eval: "run_cells (c # cs) s = (case c s of (Inl e, s') \<Rightarrow> (Inl e, s') | (Inr x, s') \<Rightarrow> run_cells cs s')"
  by (simp add: bind_def)

lemma run_cells_eval_Nil: "run_cells [] s = (Inr (), s)"
  by (simp add: ret_def)

lemmas closed_cells = cell_input_closed cell_read_closed cell_adata_shape_closed cell_array_shape_closed
  cell_to_gpu_closed cell_filter_cells_closed cell_filter_genes_closed cell_normalize_closed
  cell_log1p_closed cell_to_anndata_closed cell_hvg_closed capture_closed capture_Nil_closed
  cell_capture_closed cell_confounders_closed cell_regress_closed cell_scale_closed
  attach_closed attach_Nil_closed cell_attach_closed cell_pca_closed cell_neighbors_closed
  cell_umap_closed cell_louvain_closed cell_plot_closed cell_show_selection_closed
  cell_link_selection_closed cell_show_linked_closed run_cells_eval run_cells_eval_Nil

lemmas eval_defs = logged_def Series_def series_values_def index_first_def
  get_column_def mask_columns_def select_def startswith_def fl_def fsum_def rows_named_def
  E0_def lung_def lung_no_epcam_def drop_unexpressed_def expressed_mask_def expressed_def
  empty_anndata_def disk_def initial_def input_file_def input_url_def markers_def
  RIBO_GENE_PREFIX_def upt_conv_Cons


lemmas closed_dashboard = re_cluster_closed session_Nil_closed session_Recluster_closed
  session_Export_closed cell_dashboard_closed



lemmas eval_dashboard = closed_dashboard export_table_def toy_user_def


section \<open>Where a run stops\<close>



section \<open>The claims\<close>

text \<open>
  Claim C1. The callback \<^verbatim>\<open>re_cluster\<close>, applied to any object, makes exactly four calls
  that are steps of the analysis: PCA, neighbor graph, UMAP and Louvain clustering, in
  this order, with \<open>n_components = 50\<close>, \<open>n_neighbors = 15\<close>, \<open>knn_n_pcs = 50\<close>,
  \<open>umap_min_dist = 0.3\<close>, \<open>umap_spread = 1.0\<close> and the flavor \<^verbatim>\<open>rapids\<close>. This is the
  configuration of the same four steps of the main pipeline (which differ only in the
  array type PCA is asked to return). It returns the address it was given, and the
  object at that address is the result of the four calls, the PCA result having been
  stored under \<^verbatim>\<open>obsm["X_pca"]\<close>.
\<close>

theorem re_cluster_delegates:
  assumes "re_cluster E r s = (Inr r', s')"
    and "run_cells (clustering_cells E) t = (Inr (), t')"
  shows "r' = r \<and>
     operations (new_events s s') =
       [PcaFitTransform 50 None, Neighbors 15 50 ''rapids'', Umap (3 / 10) 1 ''rapids'',
        Louvain ''rapids''] \<and>
     map configuration (operations (new_events s s')) =
       map configuration (operations (new_events t t')) \<and>
     (n_components, n_neighbors, knn_n_pcs, umap_min_dist, umap_spread) = (50, 15, 50, 3 / 10, 1) \<and>
     (\<exists>p a1 a2 a3 a4.
        pca_fit_transform E 50 None (X (heap s r)) = Inr p \<and>
        set_obsm E (heap s r) ''X_pca'' p = Inr a1 \<and>
        neighbors E a1 15 50 ''rapids'' = Inr a2 \<and>
        umap E a2 (3 / 10) 1 ''rapids'' = Inr a3 \<and>
        louvain E a3 ''rapids'' = Inr a4 \<and>
        heap s' = (heap s)(r := a4))"
proof -
  have ops: "operations (new_events s s') = recluster_ops"
    using runs_events(3)[OF runs_re_cluster, of E r s] assms(1) by (simp add: outcome_def)
  have main: "operations (new_events t t') =
      [PcaFitTransform 50 (Some ''numpy''), Neighbors 15 50 ''rapids'', Umap (3 / 10) 1 ''rapids'',
       Louvain ''rapids'']"
    using runs_events(3)[OF runs_clustering, of E t] assms(2) by (simp add: outcome_def)
  have data: "r' = r \<and> (\<exists>p a1 a2 a3 a4.
        pca_fit_transform E 50 None (X (heap s r)) = Inr p \<and>
        set_obsm E (heap s r) ''X_pca'' p = Inr a1 \<and>
        neighbors E a1 15 50 ''rapids'' = Inr a2 \<and>
        umap E a2 (3 / 10) 1 ''rapids'' = Inr a3 \<and>
        louvain E a3 ''rapids'' = Inr a4 \<and>
        heap s' = (heap s)(r := a4))"
    using assms(1) unfolding re_cluster_closed
    by (auto simp: logged_def split: sum.splits)
  show ?thesis
    using ops main data
    by (simp add: recluster_ops_def n_components_def n_neighbors_def knn_n_pcs_def
          umap_min_dist_def umap_spread_def)
qed

theorem re_cluster_delegates_witness:
  "fst (re_cluster E0 0 toy_store) = Inr 0 \<and>
   operations (new_events toy_store (snd (re_cluster E0 0 toy_store))) =
     [PcaFitTransform 50 None, Neighbors 15 50 ''rapids'', Umap (3 / 10) 1 ''rapids'',
      Louvain ''rapids''] \<and>
   obs (heap (snd (re_cluster E0 0 toy_store)) 0) ''louvain'' = Some (Cat [''0'', ''0''])"
proof -
  have f: "fst (re_cluster E0 0 toy_store) = Inr 0"
    by (simp add: re_cluster_closed eval_defs toy_store_def)
  then have a: "re_cluster E0 0 toy_store = (Inr 0, snd (re_cluster E0 0 toy_store))"
    by (metis prod.collapse)
  have "fst (run_cells (clustering_cells E0) toy_state_11) = Inr ()"
    by (simp add: clustering_cells_def closed_cells eval_defs toy_state_11_def del: run_cells.simps)
  then have b: "run_cells (clustering_cells E0) toy_state_11 =
           (Inr (), snd (run_cells (clustering_cells E0) toy_state_11))"
    by (metis prod.collapse)
  have c: "obs (heap (snd (re_cluster E0 0 toy_store)) 0) ''louvain'' = Some (Cat [''0'', ''0''])"
    by (simp add: re_cluster_closed eval_defs toy_store_def)
  from re_cluster_delegates[OF a b]
  have "operations (new_events toy_store (snd (re_cluster E0 0 toy_store))) =
     [PcaFitTransform 50 None, Neighbors 15 50 ''rapids'', Umap (3 / 10) 1 ''rapids'',
      Louvain ''rapids'']" by blast
  with f c show ?thesis by blast
qed






end
